theory Spec2Isabelle
  imports Main "HOL-Library.Char_ord" "HOL-Library.List_Lexorder" "HOL-Library.Multiset"
begin

section \<open>Values received from clients\<close>

text \<open>
  The socket handlers destructure their payload (\<open>{ senderId, receiverId, text }\<close>), so each
  field is whatever the client sent: a string, \<open>null\<close>, or nothing at all (\<open>undefined\<close>).
  Strings are lists of code units, compared by code unit as JavaScript compares them.
\<close>

datatype jsval = Undefined | Null | Str string

fun ToString :: "jsval \<Rightarrow> string" where
  "ToString Undefined = ''undefined''"
| "ToString Null = ''null''"
| "ToString (Str s) = s"

section \<open>The room identifier: \<open>[senderId, receiverId].sort().join("-")\<close>\<close>

text \<open>
  \<open>Array.prototype.sort\<close> without a comparator orders by SortCompare: \<open>undefined\<close> goes
  after everything else, every other pair is compared by its \<open>ToString\<close> images. The sort is
  stable. \<open>SortCompare_gt x y\<close> is "SortCompare(x, y) > 0", the only case in which \<open>y\<close> is
  placed before \<open>x\<close>.
\<close>

fun SortCompare_gt :: "jsval \<Rightarrow> jsval \<Rightarrow> bool" where
  "SortCompare_gt Undefined Undefined = False"
| "SortCompare_gt Undefined y = True"
| "SortCompare_gt x Undefined = False"
| "SortCompare_gt x y = (ToString y < ToString x)"

fun insort_js :: "jsval \<Rightarrow> jsval list \<Rightarrow> jsval list" where
  "insort_js x [] = [x]"
| "insort_js x (y # ys) = (if SortCompare_gt x y then y # insort_js x ys else x # y # ys)"

definition sort_js :: "jsval list \<Rightarrow> jsval list" where
  "sort_js xs = foldr insort_js xs []"

text \<open>\<open>Array.prototype.join\<close> writes \<open>undefined\<close> and \<open>null\<close> as the empty string.\<close>

fun join_elem :: "jsval \<Rightarrow> string" where
  "join_elem Undefined = []"
| "join_elem Null = []"
| "join_elem (Str s) = s"

fun join :: "string \<Rightarrow> jsval list \<Rightarrow> string" where
  "join sep [] = []"
| "join sep [x] = join_elem x"
| "join sep (x # y # ys) = join_elem x @ sep @ join sep (y # ys)"

definition roomId :: "jsval \<Rightarrow> jsval \<Rightarrow> string" where
  "roomId senderId receiverId = join ''-'' (sort_js [senderId, receiverId])"

section \<open>Joining a room\<close>

text \<open>
  \<open>socket.on("joinRoom", ({ senderId, receiverId }) => { socket.join(roomId) })\<close>: the
  handler checks nothing. Room membership is a set of (socket, room) pairs, kept as a list
  without duplicates.
\<close>

record router =
  rooms :: "(nat \<times> string) list"

definition joinRoom :: "nat \<Rightarrow> jsval \<Rightarrow> jsval \<Rightarrow> router \<Rightarrow> router" where
  "joinRoom socket senderId receiverId r =
     r\<lparr>rooms := List.insert (socket, roomId senderId receiverId) (rooms r)\<rparr>"

section \<open>Stored data\<close>

text \<open>
  An ObjectId is represented by its 24-digit hexadecimal string in lower case. A path of
  type ObjectId accepts a string of 24 hexadecimal digits; \<open>undefined\<close>, \<open>null\<close> and
  the empty string are not ObjectIds. (Older drivers also read a 12-character string as
  twelve raw bytes; nothing below depends on such strings.)
\<close>

definition isHexDigit :: "char \<Rightarrow> bool" where
  "isHexDigit c = (c \<in> set ''0123456789abcdefABCDEF'')"

definition hexLower :: "char \<Rightarrow> char" where
  "hexLower c =
     (if c = CHR ''A'' then CHR ''a'' else if c = CHR ''B'' then CHR ''b''
      else if c = CHR ''C'' then CHR ''c'' else if c = CHR ''D'' then CHR ''d''
      else if c = CHR ''E'' then CHR ''e'' else if c = CHR ''F'' then CHR ''f'' else c)"

fun castObjectId :: "jsval \<Rightarrow> string option" where
  "castObjectId (Str s) =
     (if length s = 24 \<and> list_all isHexDigit s then Some (map hexLower s) else None)"
| "castObjectId v = None"

text \<open>
  \<open>MessageSchema\<close>: \<open>sender\<close>, \<open>receiver\<close> (ObjectId, required), \<open>text\<close> (String,
  required), \<open>timestamp\<close> (Date, default \<open>Date.now\<close>), and the \<open>_id\<close> every document
  has. The schema declares no other path.
\<close>

record message =
  msg_id :: string
  sender :: string
  receiver :: string
  msg_text :: string
  timestamp :: int

record user =
  user_id :: string
  username :: string
  email :: string
  password :: string

record mailOptions =
  mail_from :: string
  mail_to :: string
  subject :: string
  mail_text :: string

datatype target = ToRoom jsval | ToAll

datatype event = receiveMessage message | messageRead string

datatype error = ValidationError | CastError | MongoError | MailError | ReferenceError

datatype outcome = Resolved | Rejected error

text \<open>
  The state the chat handlers read and write: the two collections, what has been emitted
  through \<open>io\<close> (in order), and the calls made to \<open>transporter.sendMail\<close> (in order).
\<close>

record state =
  messages :: "message list"
  users :: "user list"
  emitted :: "(target \<times> event) list"
  sendMail_calls :: "mailOptions list"

text \<open>
  What the collaborators answer during one run of a handler: the clock, the fresh
  \<open>_id\<close>, and for each awaited call whether its promise resolves.
\<close>

record env =
  Date_now :: int
  new_ObjectId :: string
  EMAIL_USER :: string
  save_ok :: bool
  findById_ok :: bool
  sendMail_ok :: bool
  findByIdAndUpdate_ok :: bool
  find_ok :: bool

section \<open>Creating and saving a message\<close>

text \<open>
  \<open>new Message({ sender: senderId, receiver: receiverId, text })\<close> casts each value to the
  type of its path; \<open>message.save()\<close> validates the document first (a value that did not
  cast, a required path that is missing, a required string that is empty) and rejects with
  a validation error without writing, and otherwise writes the document.
\<close>

definition new_Message :: "env \<Rightarrow> jsval \<Rightarrow> jsval \<Rightarrow> jsval \<Rightarrow> error + message" where
  "new_Message e senderId receiverId txt =
     (case (castObjectId senderId, castObjectId receiverId, txt) of
        (Some s, Some r, Str t) \<Rightarrow>
          if t = [] then Inl ValidationError
          else Inr \<lparr>msg_id = new_ObjectId e, sender = s, receiver = r, msg_text = t,
                    timestamp = Date_now e\<rparr>
      | _ \<Rightarrow> Inl ValidationError)"

definition save :: "env \<Rightarrow> error + message \<Rightarrow> message list \<Rightarrow> error + message \<times> message list" where
  "save e doc ms =
     (case doc of
        Inl err \<Rightarrow> Inl err
      | Inr m \<Rightarrow> if save_ok e then Inr (m, ms @ [m]) else Inl MongoError)"

section \<open>The first connection handler\<close>

definition sendMessage1 :: "env \<Rightarrow> jsval \<Rightarrow> jsval \<Rightarrow> jsval \<Rightarrow> state \<Rightarrow> state \<times> outcome" where
  "sendMessage1 e senderId receiverId txt s =
     (let room = roomId senderId receiverId;
          message = new_Message e senderId receiverId txt
      in case save e message (messages s) of
           Inl err \<Rightarrow> (s, Rejected err)
         | Inr (m, ms) \<Rightarrow>
             (s\<lparr>messages := ms,
                emitted := emitted s @ [(ToRoom (Str room), receiveMessage m)]\<rparr>, Resolved))"

section \<open>The second connection handler\<close>

text \<open>
  \<open>sendEmailNotification(to, message)\<close> builds \<open>mailOptions\<close> and awaits
  \<open>transporter.sendMail(mailOptions)\<close>; it catches nothing. The template literal writes
  \<open>message\<close> through \<open>ToString\<close>.
\<close>

definition newline :: char where
  "newline = CHR 0x0A"

definition mailOptions_of :: "env \<Rightarrow> string \<Rightarrow> jsval \<Rightarrow> mailOptions" where
  "mailOptions_of e to message =
     \<lparr>mail_from = EMAIL_USER e, mail_to = to,
      subject = ''New Message Notification'',
      mail_text = ''You have a new message: \"'' @ ToString message @ ''\"''
                  @ [newline, newline] @ ''Login to reply.''\<rparr>"

definition sendEmailNotification :: "env \<Rightarrow> string \<Rightarrow> jsval \<Rightarrow> state \<Rightarrow> state \<times> outcome" where
  "sendEmailNotification e to message s =
     (s\<lparr>sendMail_calls := sendMail_calls s @ [mailOptions_of e to message]\<rparr>,
      if sendMail_ok e then Resolved else Rejected MailError)"

text \<open>
  \<open>User.findById(id)\<close> queries \<open>{ _id: id }\<close>: a string that is no ObjectId rejects
  with a cast error, \<open>null\<close> and \<open>undefined\<close> match no user.
\<close>

definition findById :: "env \<Rightarrow> jsval \<Rightarrow> user list \<Rightarrow> error + user option" where
  "findById e ident us =
     (case ident of
        Str x \<Rightarrow>
          (case castObjectId ident of
             None \<Rightarrow> Inl CastError
           | Some i \<Rightarrow>
               if findById_ok e then Inr (find (\<lambda>u. user_id u = i) us) else Inl MongoError)
      | _ \<Rightarrow> if findById_ok e then Inr None else Inl MongoError)"

text \<open>
  After the save the listener reads \<open>onlineUsers[receiverId]\<close>. No file of the repository
  declares \<open>onlineUsers\<close> (the comment beside the read only assumes a map from user id to
  socket), so in the program as written the read throws a \<open>ReferenceError\<close> and the
  lines after it, the lookup of the receiver, the mail and the emit, are not reached.
  The parameter \<open>onlineUsers\<close> is the binding of that name: \<open>Undeclared\<close> is the
  repository; \<open>Declared\<close> carries the map the comment assumes, and gives the lines after
  the read their meaning.
\<close>

datatype 'a binding = Undeclared | Declared 'a

definition sendMessage2 ::
  "env \<Rightarrow> (jsval \<Rightarrow> nat option) binding \<Rightarrow> jsval \<Rightarrow> jsval \<Rightarrow> jsval \<Rightarrow> state
     \<Rightarrow> state \<times> outcome" where
  "sendMessage2 e onlineUsers senderId receiverId txt s =
     (let message = new_Message e senderId receiverId txt
      in case save e message (messages s) of
           Inl err \<Rightarrow> (s, Rejected err)
         | Inr (m, ms) \<Rightarrow>
             (let s1 = s\<lparr>messages := ms\<rparr>
              in case onlineUsers of
                   Undeclared \<Rightarrow> (s1, Rejected ReferenceError)
                 | Declared online \<Rightarrow>
                     (let receiverSocket = online receiverId
                      in if receiverSocket = None then
                           (case findById e receiverId (users s1) of
                              Inl err \<Rightarrow> (s1, Rejected err)
                            | Inr None \<Rightarrow> (s1, Resolved)
                            | Inr (Some rcv) \<Rightarrow>
                                sendEmailNotification e (email rcv) txt s1)
                         else
                           (s1\<lparr>emitted :=
                                 emitted s1 @ [(ToRoom receiverId, receiveMessage m)]\<rparr>,
                            Resolved))))"

text \<open>
  Both \<open>io.on("connection", ...)\<close> callbacks run for every socket, so a socket has both
  \<open>sendMessage\<close> listeners and one event runs both, in the order of registration. Each
  listener has its own clock reading, fresh id and collaborator answers. The listeners are
  \<open>async\<close>; they only append to the collection, to what was emitted and to the mail
  calls, and the first is taken to complete before the second.
\<close>

definition on_sendMessage ::
  "env \<Rightarrow> env \<Rightarrow> (jsval \<Rightarrow> nat option) binding \<Rightarrow> jsval \<Rightarrow> jsval \<Rightarrow> jsval \<Rightarrow> state
     \<Rightarrow> state \<times> outcome list" where
  "on_sendMessage e1 e2 onlineUsers senderId receiverId txt s =
     (let (s1, o1) = sendMessage1 e1 senderId receiverId txt s;
          (s2, o2) = sendMessage2 e2 onlineUsers senderId receiverId txt s1
      in (s2, [o1, o2]))"

section \<open>Read receipts\<close>

text \<open>
  \<open>await Message.findByIdAndUpdate(messageId, { read: true }); io.emit("messageRead",
  { messageId })\<close>, identical in both connection handlers. \<open>messageId\<close> is the string the
  client got as \<open>message._id\<close>. The update names the path \<open>read\<close>, which
  \<open>MessageSchema\<close> does not declare; the schema is strict (it sets no option), so the
  path is dropped from the update and nothing of the stored document is set. The call
  resolves to the document found, or to \<open>null\<close> when there is none, and the handler does
  not look at it.
\<close>

definition findByIdAndUpdate_read ::
  "env \<Rightarrow> string \<Rightarrow> message list \<Rightarrow> error + message option \<times> message list" where
  "findByIdAndUpdate_read e messageId ms =
     (case castObjectId (Str messageId) of
        None \<Rightarrow> Inl CastError
      | Some i \<Rightarrow>
          if findByIdAndUpdate_ok e then Inr (find (\<lambda>m. msg_id m = i) ms, ms)
          else Inl MongoError)"

definition markAsRead :: "env \<Rightarrow> string \<Rightarrow> state \<Rightarrow> state \<times> outcome" where
  "markAsRead e messageId s =
     (case findByIdAndUpdate_read e messageId (messages s) of
        Inl err \<Rightarrow> (s, Rejected err)
      | Inr (doc, ms) \<Rightarrow>
          (s\<lparr>messages := ms, emitted := emitted s @ [(ToAll, messageRead messageId)]\<rparr>,
           Resolved))"

definition on_markAsRead :: "env \<Rightarrow> env \<Rightarrow> string \<Rightarrow> state \<Rightarrow> state \<times> outcome list" where
  "on_markAsRead e1 e2 messageId s =
     (let (s1, o1) = markAsRead e1 messageId s;
          (s2, o2) = markAsRead e2 messageId s1
      in (s2, [o1, o2]))"

section \<open>Fetching a conversation\<close>

text \<open>
  \<open>GET /api/chat/:userId\<close>, after \<open>authenticate\<close> has set \<open>req.userId\<close>:
  \<open>Message.find({ $or: [...] }).sort({ timestamp: 1 })\<close>, both ids cast to ObjectId by
  the query. The handler catches nothing, so a rejected query sends no response.
\<close>

definition between :: "string \<Rightarrow> string \<Rightarrow> message \<Rightarrow> bool" where
  "between a b m = (sender m = a \<and> receiver m = b \<or> sender m = b \<and> receiver m = a)"

definition chat_route :: "env \<Rightarrow> string \<Rightarrow> string \<Rightarrow> state \<Rightarrow> error + message list" where
  "chat_route e req_userId params_userId s =
     (case (castObjectId (Str req_userId), castObjectId (Str params_userId)) of
        (Some a, Some b) \<Rightarrow>
          if find_ok e then Inr (sort_key timestamp (filter (between a b) (messages s)))
          else Inl MongoError
      | _ \<Rightarrow> Inl CastError)"

section \<open>Concrete data\<close>

text \<open>Two users, two message ids, and the collaborators' answers used in the examples.\<close>

definition U1 :: string where
  "U1 = ''65f0a1b2c3d4e5f6a7b8c9d1''"

definition U2 :: string where
  "U2 = ''65f0a1b2c3d4e5f6a7b8c9d2''"

definition M1 :: string where
  "M1 = ''65f0a1b2c3d4e5f6a7b8c9e1''"

definition M2 :: string where
  "M2 = ''65f0a1b2c3d4e5f6a7b8c9e2''"

definition env1 :: env where
  "env1 = \<lparr>Date_now = 1000, new_ObjectId = M1, EMAIL_USER = ''shop@example.com'',
            save_ok = True, findById_ok = True, sendMail_ok = True,
            findByIdAndUpdate_ok = True, find_ok = True\<rparr>"

definition env2 :: env where
  "env2 = env1\<lparr>Date_now := 1001, new_ObjectId := M2\<rparr>"

definition env_down :: env where
  "env_down = env1\<lparr>save_ok := False\<rparr>"

definition env_nomail :: env where
  "env_nomail = env2\<lparr>sendMail_ok := False\<rparr>"

definition bea :: user where
  "bea = \<lparr>user_id = U2, username = ''bea'', email = ''bea@example.com'', password = ''x''\<rparr>"

definition hi1 :: message where
  "hi1 = \<lparr>msg_id = M1, sender = U1, receiver = U2, msg_text = ''hi'', timestamp = 1000\<rparr>"

definition hi2 :: message where
  "hi2 = \<lparr>msg_id = M2, sender = U1, receiver = U2, msg_text = ''hi'', timestamp = 1001\<rparr>"

definition yo :: message where
  "yo = \<lparr>msg_id = M2, sender = U2, receiver = U1, msg_text = ''yo'', timestamp = 2000\<rparr>"

definition state0 :: state where
  "state0 = \<lparr>messages = [], users = [bea], emitted = [], sendMail_calls = []\<rparr>"

definition state1 :: state where
  "state1 = state0\<lparr>messages := [hi1]\<rparr>"

definition state2 :: state where
  "state2 = state0\<lparr>messages := [yo, hi1]\<rparr>"

lemmas ex_defs = U1_def U2_def M1_def M2_def env1_def env2_def env_down_def env_nomail_def
  bea_def hi1_def hi2_def yo_def state0_def state1_def state2_def

section \<open>The room identifier\<close>

lemma sort_js_pair:
  "sort_js [x, y] = (if SortCompare_gt x y then [y, x] else [x, y])"
  by (simp add: sort_js_def)

lemma roomId_Str:
  "roomId (Str a) (Str b) = (if b < a then b @ ''-'' @ a else a @ ''-'' @ b)"
  by (simp add: roomId_def sort_js_pair)

text \<open>
  Among the values a payload can carry, the only pair on which the order of the arguments
  shows is \<open>null\<close> with the string \<open>"null"\<close>: the two compare equal as strings, the
  stable sort keeps them as given, and \<open>join\<close> writes \<open>null\<close> as the empty string.
\<close>

lemma roomId_commutes_values:
  "{a, b} \<noteq> {Null, Str ''null''} \<Longrightarrow> roomId a b = roomId b a"
  unfolding roomId_def sort_js_pair
  by (cases a; cases b) (auto simp: not_less doubleton_eq_iff dest: antisym)

lemma roomId_null_pair:
  "roomId Null (Str ''null'') = ''-null'' \<and> roomId (Str ''null'') Null = ''null-''"
  by (simp add: roomId_def sort_js_pair)

text \<open>
  Claim C3. For all pairs of participant identifiers \<open>a\<close>, \<open>b\<close> (user ids, which are
  strings), the room identifier does not depend on the order of the arguments, so
  \<open>joinRoom\<close> and \<open>sendMessage\<close> compute the same room for \<open>(a, b)\<close> and \<open>(b, a)\<close>.
\<close>

theorem roomId_commutes:
  "roomId (Str a) (Str b) = roomId (Str b) (Str a)"
proof (cases "a = b")
  case True
  then show ?thesis by simp
next
  case False
  then have "a < b \<or> b < a" by auto
  then show ?thesis
    by (auto simp: roomId_Str dest: less_asym)
qed

text \<open>
  Claim C10. The room identifier is not injective on unordered pairs: two distinct pairs
  of non-empty identifiers, one of which contains the separator, get the same room, and a
  socket joining for one pair is in the room of the other.
\<close>

theorem roomId_not_injective:
  "\<exists>a b c d. a \<noteq> [] \<and> b \<noteq> [] \<and> c \<noteq> [] \<and> d \<noteq> [] \<and> {a, b} \<noteq> {c, d} \<and>
     roomId (Str a) (Str b) = roomId (Str c) (Str d) \<and>
     (\<forall>socket r. joinRoom socket (Str a) (Str b) r = joinRoom socket (Str c) (Str d) r)"
proof -
  have k: "roomId (Str ''a-b'') (Str ''c'') = ''a-b-c''" "roomId (Str ''a'') (Str ''b-c'') = ''a-b-c''"
    by (simp_all add: roomId_Str)
  have d: "{''a-b'', ''c''} \<noteq> {''a'', ''b-c''}"
    by (simp add: doubleton_eq_iff)
  show ?thesis
    by (rule exI [of _ "''a-b''"], rule exI [of _ "''c''"], rule exI [of _ "''a''"],
        rule exI [of _ "''b-c''"])
       (use k d in \<open>simp add: joinRoom_def\<close>)
qed

text \<open>
  Claim C8, as the code has it. The claim says the resolver fails with
  \<open>InvalidParticipant\<close> on an empty identifier and that no room is joined. The handler
  has no such check: with an empty \<open>senderId\<close> the key \<open>"-b"\<close> is produced and the socket
  joins that room.
\<close>

theorem joinRoom_empty_id_joins:
  "roomId (Str []) (Str ''b'') = ''-b'' \<and>
   rooms (joinRoom 7 (Str []) (Str ''b'') \<lparr>rooms = []\<rparr>) = [(7, ''-b'')]"
  by (simp add: joinRoom_def roomId_Str)

text \<open>
  Claim C8, amended. The resolver never fails: for every pair of identifiers a key is
  produced and \<open>joinRoom\<close> puts the socket into the room of that key. An empty or missing
  identifier contributes the empty string to the key.
\<close>

theorem joinRoom_always_joins:
  "(socket, roomId a b) \<in> set (rooms (joinRoom socket a b r)) \<and>
   roomId (Str []) (Str x) = ''-'' @ x \<and> roomId (Str x) (Str []) = ''-'' @ x \<and>
   roomId Undefined (Str x) = x @ ''-'' \<and> roomId (Str x) Undefined = x @ ''-''"
  by (cases x) (simp_all add: joinRoom_def roomId_def sort_js_pair)

section \<open>Sending a message\<close>

lemma castObjectId_examples:
  "castObjectId (Str U1) = Some U1" "castObjectId (Str U2) = Some U2"
  "castObjectId (Str M1) = Some M1" "castObjectId (Str M2) = Some M2"
  by (simp_all add: U1_def U2_def M1_def M2_def isHexDigit_def hexLower_def)

lemma sendMessage1_save_fails:
  "save e (new_Message e a b t) (messages s) = Inl err \<Longrightarrow>
   sendMessage1 e a b t s = (s, Rejected err)"
  by (simp add: sendMessage1_def)

lemma sendMessage2_save_fails:
  "save e (new_Message e a b t) (messages s) = Inl err \<Longrightarrow>
   sendMessage2 e onlineUsers a b t s = (s, Rejected err)"
  by (simp add: sendMessage2_def)

text \<open>
  Claim C1. If \<open>message.save()\<close> fails, the listener stops there: the state is as before,
  so nothing was emitted to any room and \<open>sendMail\<close> was not called. This holds for each
  of the two \<open>sendMessage\<close> listeners, and for the event as a whole when the save of both
  fails.
\<close>

theorem sendMessage_save_failure_no_fanout:
  "(save e1 (new_Message e1 a b t) (messages s) = Inl err1 \<longrightarrow>
      sendMessage1 e1 a b t s = (s, Rejected err1)) \<and>
   (save e2 (new_Message e2 a b t) (messages s) = Inl err2 \<longrightarrow>
      sendMessage2 e2 onlineUsers a b t s = (s, Rejected err2)) \<and>
   (save e1 (new_Message e1 a b t) (messages s) = Inl err1 \<and>
    save e2 (new_Message e2 a b t) (messages s) = Inl err2 \<longrightarrow>
      on_sendMessage e1 e2 onlineUsers a b t s = (s, [Rejected err1, Rejected err2]))"
  by (simp add: on_sendMessage_def sendMessage1_save_fails sendMessage2_save_fails)

theorem sendMessage_save_failure_no_fanout_witness:
  "save env_down (new_Message env_down (Str U1) (Str U2) (Str ''hi'')) (messages state0)
     = Inl MongoError \<and>
   sendMessage1 env_down (Str U1) (Str U2) (Str ''hi'') state0 = (state0, Rejected MongoError) \<and>
   sendMessage2 env_down Undeclared (Str U1) (Str U2) (Str ''hi'') state0
     = (state0, Rejected MongoError) \<and>
   on_sendMessage env_down env_down Undeclared (Str U1) (Str U2) (Str ''hi'') state0
     = (state0, [Rejected MongoError, Rejected MongoError])"
proof -
  have h: "save env_down (new_Message env_down (Str U1) (Str U2) (Str ''hi'')) (messages state0)
             = Inl MongoError"
    by (simp add: save_def new_Message_def ex_defs isHexDigit_def)
  show ?thesis
    using h sendMessage_save_failure_no_fanout
      [of env_down "Str U1" "Str U2" "Str ''hi''" state0 MongoError env_down MongoError
          Undeclared]
    by simp
qed

lemma new_Message_empty:
  "{a, b, t} \<inter> {Undefined, Null, Str []} \<noteq> {} \<Longrightarrow> new_Message e a b t = Inl ValidationError"
  by (auto simp: new_Message_def split: option.splits jsval.splits)

lemma save_invalid:
  "save e (Inl err) ms = Inl err"
  by (simp add: save_def)

text \<open>
  Claim C6. A \<open>sendMessage\<close> whose sender, receiver or text is empty (the empty string,
  \<open>null\<close> or missing) is rejected with a validation error by both listeners, whatever the
  database would answer to a write, and the state, the stored messages included, is as
  before.
\<close>

theorem sendMessage_empty_field_rejected:
  assumes "{a, b, t} \<inter> {Undefined, Null, Str []} \<noteq> {}"
  shows "sendMessage1 e a b t s = (s, Rejected ValidationError) \<and>
         sendMessage2 e onlineUsers a b t s = (s, Rejected ValidationError) \<and>
         on_sendMessage e1 e2 onlineUsers a b t s
           = (s, [Rejected ValidationError, Rejected ValidationError])"
  using assms
  by (simp add: on_sendMessage_def sendMessage1_def sendMessage2_def new_Message_empty
      save_invalid)

theorem sendMessage_empty_field_rejected_witness:
  "{Str U1, Str U2, Str []} \<inter> {Undefined, Null, Str []} \<noteq> {} \<and>
   sendMessage1 env1 (Str U1) (Str U2) (Str []) state0 = (state0, Rejected ValidationError) \<and>
   sendMessage2 env1 Undeclared (Str U1) (Str U2) (Str []) state0
     = (state0, Rejected ValidationError) \<and>
   on_sendMessage env1 env2 Undeclared (Str U1) (Str U2) (Str []) state0
     = (state0, [Rejected ValidationError, Rejected ValidationError])"
proof -
  have h: "{Str U1, Str U2, Str []} \<inter> {Undefined, Null, Str []} \<noteq> {}"
    by simp
  show ?thesis
    using h sendMessage_empty_field_rejected [OF h, of env1 state0 Undeclared env1 env2]
    by simp
qed

lemma sendMessage2_Undeclared:
  "save e (new_Message e a b t) (messages s) = Inr (m, ms) \<Longrightarrow>
   sendMessage2 e Undeclared a b t s = (s\<lparr>messages := ms\<rparr>, Rejected ReferenceError)"
  by (simp add: sendMessage2_def)

lemma on_sendMessage_stores_two:
  assumes "castObjectId a = Some sa" and "castObjectId b = Some sb"
    and "t = Str tx" and "tx \<noteq> []" and "save_ok e1" and "save_ok e2"
  shows "messages (fst (on_sendMessage e1 e2 onlineUsers a b t s)) =
           messages s @
             [\<lparr>msg_id = new_ObjectId e1, sender = sa, receiver = sb, msg_text = tx,
                timestamp = Date_now e1\<rparr>,
              \<lparr>msg_id = new_ObjectId e2, sender = sa, receiver = sb, msg_text = tx,
                timestamp = Date_now e2\<rparr>]"
  using assms
  by (auto simp: on_sendMessage_def sendMessage1_def sendMessage2_def new_Message_def save_def
      Let_def sendEmailNotification_def
      split: option.splits sum.splits prod.splits binding.splits)

text \<open>
  Claim C2, on the code. With the receiver offline and registered, one \<open>sendMessage\<close>
  event stores two messages, one per listener, and the stored documents have the paths of
  \<open>MessageSchema\<close>, with no \<open>read\<close> among them. The first listener emits to the room
  and resolves. The second, having saved, reads \<open>onlineUsers\<close>, which nothing declares,
  and rejects with a \<open>ReferenceError\<close>: \<open>sendMail\<close> is not called.
\<close>

theorem sendMessage_offline_stores_twice:
  "on_sendMessage env1 env2 Undeclared (Str U1) (Str U2) (Str ''hi'') state0 =
     (state0\<lparr>messages := [hi1, hi2],
             emitted := [(ToRoom (Str (U1 @ ''-'' @ U2)), receiveMessage hi1)],
             sendMail_calls := []\<rparr>,
      [Resolved, Rejected ReferenceError])"
  by (simp add: on_sendMessage_def sendMessage1_def sendMessage2_def new_Message_def save_def
      roomId_Str ex_defs isHexDigit_def hexLower_def)

text \<open>
  \<open>sendEmailNotification\<close> itself passes a failure of \<open>sendMail\<close> on to its caller: it
  calls \<open>sendMail\<close> once and ends as \<open>sendMail\<close> ends.
\<close>

lemma sendEmailNotification_outcome:
  "sendEmailNotification e to message s =
     (s\<lparr>sendMail_calls := sendMail_calls s @ [mailOptions_of e to message]\<rparr>,
      if sendMail_ok e then Resolved else Rejected MailError)"
  by (simp add: sendEmailNotification_def)


section \<open>Read receipts\<close>

lemma markAsRead_Resolved:
  "markAsRead e messageId s = (s', Resolved) \<Longrightarrow>
   s' = s\<lparr>emitted := emitted s @ [(ToAll, messageRead messageId)]\<rparr>"
  by (auto simp: markAsRead_def findByIdAndUpdate_read_def
      split: sum.splits option.splits if_splits)

lemma markAsRead_ok:
  "castObjectId (Str messageId) = Some i \<Longrightarrow> findByIdAndUpdate_ok e \<Longrightarrow>
   markAsRead e messageId s
     = (s\<lparr>emitted := emitted s @ [(ToAll, messageRead messageId)]\<rparr>, Resolved)"
  by (simp add: markAsRead_def findByIdAndUpdate_read_def)

lemma on_markAsRead_Resolved:
  assumes "on_markAsRead e1 e2 messageId s = (s', [Resolved, Resolved])"
  shows "s' = s\<lparr>emitted := emitted s @ [(ToAll, messageRead messageId),
                                        (ToAll, messageRead messageId)]\<rparr>"
proof -
  obtain s1 o1 where a: "markAsRead e1 messageId s = (s1, o1)"
    by (cases "markAsRead e1 messageId s")
  obtain s2 o2 where b: "markAsRead e2 messageId s1 = (s2, o2)"
    by (cases "markAsRead e2 messageId s1")
  from assms a b have "s' = s2" "o1 = Resolved" "o2 = Resolved"
    by (simp_all add: on_markAsRead_def)
  with a b show ?thesis
    by (auto dest!: markAsRead_Resolved)
qed

text \<open>
  Claim C4, as the code has it. The claim says a second \<open>markAsRead\<close> on a message that
  was already marked emits no further broadcast. The listeners emit \<open>messageRead\<close> after
  every update, without looking at the message: the second event adds to what was
  emitted.
\<close>

theorem markAsRead_repeat_emits_again:
  "emitted (fst (on_markAsRead env1 env2 M1 (fst (on_markAsRead env1 env2 M1 state1))))
     \<noteq> emitted (fst (on_markAsRead env1 env2 M1 state1))"
  by (simp add: on_markAsRead_def markAsRead_def findByIdAndUpdate_read_def ex_defs
      isHexDigit_def)

text \<open>
  Claim C4, amended. A second \<open>markAsRead\<close> on a message that was already marked changes
  nothing in the stored messages (nor in the users or the mail sent), and it emits
  \<open>messageRead\<close> to all sockets again, once per listener.
\<close>

theorem markAsRead_repeat_store_unchanged:
  assumes "on_markAsRead e1 e2 messageId s = (s1, [Resolved, Resolved])"
    and "on_markAsRead e3 e4 messageId s1 = (s2, [Resolved, Resolved])"
  shows "messages s2 = messages s1 \<and> users s2 = users s1 \<and>
         sendMail_calls s2 = sendMail_calls s1 \<and>
         emitted s2 = emitted s1 @ [(ToAll, messageRead messageId),
                                    (ToAll, messageRead messageId)]"
  using on_markAsRead_Resolved [OF assms(2)] by simp

theorem markAsRead_repeat_store_unchanged_witness:
  "on_markAsRead env1 env2 M1 state1
     = (state1\<lparr>emitted := [(ToAll, messageRead M1), (ToAll, messageRead M1)]\<rparr>,
        [Resolved, Resolved]) \<and>
   on_markAsRead env1 env2 M1
       (state1\<lparr>emitted := [(ToAll, messageRead M1), (ToAll, messageRead M1)]\<rparr>)
     = (state1\<lparr>emitted := [(ToAll, messageRead M1), (ToAll, messageRead M1),
                            (ToAll, messageRead M1), (ToAll, messageRead M1)]\<rparr>,
        [Resolved, Resolved]) \<and>
   messages (state1\<lparr>emitted := [(ToAll, messageRead M1), (ToAll, messageRead M1),
                                (ToAll, messageRead M1), (ToAll, messageRead M1)]\<rparr>)
     = [hi1]"
proof -
  have ok: "findByIdAndUpdate_ok env1" "findByIdAndUpdate_ok env2"
    by (simp_all add: ex_defs)
  have a: "on_markAsRead env1 env2 M1 state1
     = (state1\<lparr>emitted := [(ToAll, messageRead M1), (ToAll, messageRead M1)]\<rparr>,
        [Resolved, Resolved])"
    by (simp add: on_markAsRead_def markAsRead_ok [OF castObjectId_examples(3)] ok)
       (simp add: ex_defs)
  have b: "on_markAsRead env1 env2 M1
       (state1\<lparr>emitted := [(ToAll, messageRead M1), (ToAll, messageRead M1)]\<rparr>)
     = (state1\<lparr>emitted := [(ToAll, messageRead M1), (ToAll, messageRead M1),
                            (ToAll, messageRead M1), (ToAll, messageRead M1)]\<rparr>,
        [Resolved, Resolved])"
    by (simp add: on_markAsRead_def markAsRead_ok [OF castObjectId_examples(3)] ok)
  have "messages state1 = [hi1]"
    by (simp add: ex_defs)
  then show ?thesis
    using a b markAsRead_repeat_store_unchanged [OF a b] by simp
qed

text \<open>
  Claim C5, as the code has it. The claim says \<open>markAsRead\<close> on an id that is not in the
  store returns \<open>NotFound\<close> and emits nothing. The listeners do not look at what
  \<open>findByIdAndUpdate\<close> resolved to: with no message stored, both resolve and both emit
  \<open>messageRead\<close> to all sockets.
\<close>

theorem markAsRead_unknown_id_emits:
  "on_markAsRead env1 env2 M1 state0
     = (state0\<lparr>emitted := [(ToAll, messageRead M1), (ToAll, messageRead M1)]\<rparr>,
        [Resolved, Resolved])"
  by (simp add: on_markAsRead_def markAsRead_def findByIdAndUpdate_read_def ex_defs
      isHexDigit_def)

text \<open>
  Claim C5, amended. For every well-formed message id that is not in the store,
  \<open>findByIdAndUpdate\<close> finds no document, and \<open>markAsRead\<close> nevertheless resolves in both
  listeners (when the database answers), leaves the store as it was and emits
  \<open>messageRead\<close> to all sockets, once per listener.
\<close>

theorem markAsRead_unknown_id_resolves:
  assumes "castObjectId (Str messageId) = Some i"
    and "i \<notin> msg_id ` set (messages s)"
    and "findByIdAndUpdate_ok e1" and "findByIdAndUpdate_ok e2"
  shows "findByIdAndUpdate_read e1 messageId (messages s) = Inr (None, messages s) \<and>
         on_markAsRead e1 e2 messageId s
           = (s\<lparr>emitted := emitted s @ [(ToAll, messageRead messageId),
                                        (ToAll, messageRead messageId)]\<rparr>,
              [Resolved, Resolved])"
proof -
  have "find (\<lambda>m. msg_id m = i) (messages s) = None"
    using assms(2) by (auto simp: find_None_iff)
  then have "findByIdAndUpdate_read e1 messageId (messages s) = Inr (None, messages s)"
    using assms(1,3) by (simp add: findByIdAndUpdate_read_def)
  moreover have "on_markAsRead e1 e2 messageId s
           = (s\<lparr>emitted := emitted s @ [(ToAll, messageRead messageId),
                                        (ToAll, messageRead messageId)]\<rparr>,
              [Resolved, Resolved])"
    by (simp add: on_markAsRead_def markAsRead_ok [OF assms(1)] assms(3,4))
  ultimately show ?thesis by simp
qed

theorem markAsRead_unknown_id_resolves_witness:
  "castObjectId (Str M2) = Some M2 \<and> M2 \<notin> msg_id ` set (messages state1) \<and>
   findByIdAndUpdate_ok env1 \<and> findByIdAndUpdate_ok env2 \<and>
   findByIdAndUpdate_read env1 M2 (messages state1) = Inr (None, [hi1]) \<and>
   on_markAsRead env1 env2 M2 state1
     = (state1\<lparr>emitted := [(ToAll, messageRead M2), (ToAll, messageRead M2)]\<rparr>,
        [Resolved, Resolved])"
proof -
  have h1: "castObjectId (Str M2) = Some M2"
    by (rule castObjectId_examples)
  have h2: "M2 \<notin> msg_id ` set (messages state1)"
    by (simp add: ex_defs)
  have h3: "findByIdAndUpdate_ok env1" and h4: "findByIdAndUpdate_ok env2"
    by (simp_all add: ex_defs)
  have "messages state1 = [hi1]" "emitted state1 = []"
    by (simp_all add: ex_defs)
  then show ?thesis
    using h1 h2 h3 h4 markAsRead_unknown_id_resolves [OF h1 h2 h3 h4] by simp
qed

section \<open>Fetching a conversation\<close>

text \<open>
  Claim C9. For every pair of participants, the route answers with exactly the stored
  messages between the two (in either direction), in ascending order of \<open>timestamp\<close>.
\<close>

theorem chat_route_chronological:
  assumes "castObjectId (Str req_userId) = Some a"
    and "castObjectId (Str params_userId) = Some b"
    and "find_ok e"
  shows "\<exists>msgs. chat_route e req_userId params_userId s = Inr msgs \<and>
           sorted (map timestamp msgs) \<and>
           mset msgs = mset (filter (between a b) (messages s))"
  using assms by (simp add: chat_route_def)

theorem chat_route_chronological_witness:
  "castObjectId (Str U1) = Some U1 \<and> castObjectId (Str U2) = Some U2 \<and> find_ok env1 \<and>
   chat_route env1 U1 U2 state2 = Inr [hi1, yo] \<and> messages state2 = [yo, hi1]"
proof -
  have h1: "castObjectId (Str U1) = Some U1" and h2: "castObjectId (Str U2) = Some U2"
    by (rule castObjectId_examples)+
  have h3: "find_ok env1"
    by (simp add: ex_defs)
  have r: "chat_route env1 U1 U2 state2 = Inr [hi1, yo]"
    by (simp add: chat_route_def between_def ex_defs isHexDigit_def hexLower_def)
  have m: "messages state2 = [yo, hi1]"
    by (simp add: ex_defs)
  from chat_route_chronological [OF h1 h2 h3, of state2] h1 h2 h3 r m show ?thesis
    by simp
qed

end
